theory Spec2Isabelle
  imports Main
begin

section \<open>Direct messaging: storage, chat service, chat controller, client hook\<close>

text \<open>
  The chat service (\<^verbatim>\<open>services/chat.service\<close>) and the chat controller
  (\<^verbatim>\<open>controllers/chat.controller\<close>) run against three Mongoose models,
  \<^verbatim>\<open>UserModel\<close>, \<^verbatim>\<open>MessageModel\<close> and \<^verbatim>\<open>ChatModel\<close>. The
  collections are lists of documents held in a \<open>store\<close>; every call of a model is a
  function from the store to the new store and the call's outcome. A call either
  throws or returns, and the service functions catch what it throws.
\<close>

subsection \<open>Documents\<close>

type_synonym oid = string
type_synonym time = nat

text \<open>
  A JavaScript object of type \<^verbatim>\<open>Message\<close>. Each property may be missing from the
  object that arrives (the service tests \<^verbatim>\<open>message.msgDateTime || new Date()\<close>,
  the controller spreads \<^verbatim>\<open>req.body\<close>), so each is an option; \<open>None\<close> is the
  missing (falsy) property. \<open>msg_id\<close> is \<^verbatim>\<open>_id\<close>, \<open>msgType\<close> is \<^verbatim>\<open>type\<close>.
\<close>

record message =
  msg_id :: "oid option"
  msg :: "string option"
  msgFrom :: "string option"
  msgDateTime :: "time option"
  msgType :: "string option"

text \<open>
  A Chat document as \<^verbatim>\<open>chatSchema\<close> declares it: \<open>participants\<close> an array of
  strings, \<open>messages\<close> an array of message ids, and the two timestamps of
  \<^verbatim>\<open>timestamps: true\<close>. \<open>chat_id\<close> is \<^verbatim>\<open>_id\<close>, optional in the type
  \<^verbatim>\<open>Chat\<close> (the controller tests \<^verbatim>\<open>!chatResult._id\<close>).
\<close>

record chat =
  chat_id :: "oid option"
  participants :: "string list"
  messages :: "oid list"
  createdAt :: time
  updatedAt :: time

record createChatPayload =
  p_participants :: "string list"
  p_messages :: "message list"

subsection \<open>The store and the model calls\<close>

datatype chat_update = PushMessage oid | AddToSetParticipant string

datatype db_op =
    UserFindById string
  | MessageCreate message
  | ChatCreate "string list" "oid list"
  | ChatFindByIdAndUpdate oid chat_update
  | ChatFindById oid
  | ChatFindAll "string list"
  | ChatPopulate oid

datatype 'a outcome = Throws | Returns 'a

text \<open>
  \<open>userDocs\<close> holds the ids of the User documents (only their existence is read).
  \<open>clock\<close> is what \<^verbatim>\<open>new Date()\<close> reads. \<open>newObjectId\<close> with \<open>oidCount\<close> is
  the driver's generator of \<^verbatim>\<open>_id\<close> values. \<open>castsObjectId\<close> says which strings
  the driver casts to an ObjectId (the strings of 24 hexadecimal digits; a string such
  as \<^verbatim>\<open>abc\<close> is not one). \<open>calls\<close> is the history of the model calls made so far,
  and \<open>throws\<close> says, from that history and the call, whether the storage fails on
  the call (a lost connection, a validation error, a duplicate key).
\<close>

record store =
  userDocs :: "string list"
  messageDocs :: "message list"
  chatDocs :: "chat list"
  clock :: time
  newObjectId :: "nat \<Rightarrow> oid"
  oidCount :: nat
  castsObjectId :: "string \<Rightarrow> bool"
  throws :: "db_op list \<Rightarrow> db_op \<Rightarrow> bool"
  calls :: "db_op list"

text \<open>
  \<^verbatim>\<open>chatSchema\<close> leaves \<^verbatim>\<open>_id\<close> to its default type and declares
  \<open>messages\<close> as ObjectIds, so a call on \<^verbatim>\<open>ChatModel\<close> first casts the chat id and
  the message ids it is given, and throws a cast error when one does not cast. The
  schemas of the User and Message models are not among the sources; their calls cast
  nothing here. A call throws when a cast fails or the storage fails.
\<close>

fun castable :: "(string \<Rightarrow> bool) \<Rightarrow> db_op \<Rightarrow> bool" where
  "castable ok (ChatFindByIdAndUpdate cid (PushMessage mid)) = (ok cid \<and> ok mid)"
| "castable ok (ChatFindByIdAndUpdate cid (AddToSetParticipant u)) = ok cid"
| "castable ok (ChatFindById cid) = ok cid"
| "castable ok (ChatCreate ps ms) = list_all ok ms"
| "castable ok (UserFindById uid) = True"
| "castable ok (MessageCreate m) = True"
| "castable ok (ChatFindAll p) = True"
| "castable ok (ChatPopulate i) = True"

definition fails :: "store \<Rightarrow> db_op \<Rightarrow> bool" where
  "fails st op = (throws st (calls st) op \<or> \<not> castable (castsObjectId st) op)"

definition called :: "store \<Rightarrow> db_op \<Rightarrow> store" where
  "called st op = st\<lparr>calls := calls st @ [op]\<rparr>"

definition hasId :: "oid \<Rightarrow> chat \<Rightarrow> bool" where
  "hasId cid c = (chat_id c = Some cid)"

text \<open>\<^verbatim>\<open>UserModel.findById(id)\<close>: the user document or null.\<close>

definition UserModel_findById :: "store \<Rightarrow> string \<Rightarrow> store \<times> string option outcome" where
  "UserModel_findById st uid =
     (if fails st (UserFindById uid) then (called st (UserFindById uid), Throws)
      else (called st (UserFindById uid), Returns (find (\<lambda>u. u = uid) (userDocs st))))"

text \<open>
  Modelled from the spec: the Message model (\<^verbatim>\<open>models/messages.model\<close> and its
  schema) is not among the sources. Section 4.1 of the specification says of the
  persisted message: the message verbatim, \<^verbatim>\<open>kind\<close> defaulted to \<^verbatim>\<open>"direct"\<close>,
  \<^verbatim>\<open>sentAt\<close> defaulted to now if absent. \<open>messageDefaults\<close> is that default of the
  type and the date; every other property is stored as given.
\<close>

definition messageDefaults :: "time \<Rightarrow> message \<Rightarrow> message" where
  "messageDefaults now m =
     m\<lparr>msgType := Some (case msgType m of Some k \<Rightarrow> k | None \<Rightarrow> ''direct''),
       msgDateTime := Some (case msgDateTime m of Some t \<Rightarrow> t | None \<Rightarrow> now)\<rparr>"

text \<open>
  \<^verbatim>\<open>MessageModel.create(doc)\<close>: the document is stored, with the defaults of the schema
  and an \<^verbatim>\<open>_id\<close> (the given one, or a generated one).
\<close>

definition MessageModel_create :: "store \<Rightarrow> message \<Rightarrow> store \<times> message outcome" where
  "MessageModel_create st m =
     (if fails st (MessageCreate m) then (called st (MessageCreate m), Throws)
      else
        (case msg_id m of
           Some i \<Rightarrow>
             (let d = messageDefaults (clock st) m in
              ((called st (MessageCreate m))\<lparr>messageDocs := messageDocs st @ [d]\<rparr>,
               Returns d))
         | None \<Rightarrow>
             (let d = (messageDefaults (clock st) m)
                        \<lparr>msg_id := Some (newObjectId st (oidCount st))\<rparr> in
              ((called st (MessageCreate m))
                 \<lparr>messageDocs := messageDocs st @ [d], oidCount := Suc (oidCount st)\<rparr>,
               Returns d))))"

text \<open>\<^verbatim>\<open>ChatModel.create({participants, messages})\<close>.\<close>

definition ChatModel_create :: "store \<Rightarrow> string list \<Rightarrow> oid list \<Rightarrow> store \<times> chat outcome" where
  "ChatModel_create st ps ms =
     (if fails st (ChatCreate ps ms) then (called st (ChatCreate ps ms), Throws)
      else
        (let c = \<lparr>chat_id = Some (newObjectId st (oidCount st)), participants = ps,
                  messages = ms, createdAt = clock st, updatedAt = clock st\<rparr> in
         ((called st (ChatCreate ps ms))
            \<lparr>chatDocs := chatDocs st @ [c], oidCount := Suc (oidCount st)\<rparr>,
          Returns c)))"

text \<open>
  The update operators: \<^verbatim>\<open>$push\<close> appends to the array, \<^verbatim>\<open>$addToSet\<close> appends
  unless the array already holds the value. An update also sets \<^verbatim>\<open>updatedAt\<close>.
\<close>

fun applyUpdate :: "time \<Rightarrow> chat_update \<Rightarrow> chat \<Rightarrow> chat" where
  "applyUpdate t (PushMessage mid) c = c\<lparr>messages := messages c @ [mid], updatedAt := t\<rparr>"
| "applyUpdate t (AddToSetParticipant u) c =
     c\<lparr>participants := (if u \<in> set (participants c) then participants c
                         else participants c @ [u]),
       updatedAt := t\<rparr>"

fun updateFirst :: "('a \<Rightarrow> bool) \<Rightarrow> ('a \<Rightarrow> 'a) \<Rightarrow> 'a list \<Rightarrow> 'a list" where
  "updateFirst P f [] = []"
| "updateFirst P f (x # xs) = (if P x then f x # xs else x # updateFirst P f xs)"

text \<open>
  \<^verbatim>\<open>ChatModel.findByIdAndUpdate(id, update, {new: true})\<close>: null when no chat has
  the id, else the chat after the update.
\<close>

definition ChatModel_findByIdAndUpdate ::
  "store \<Rightarrow> oid \<Rightarrow> chat_update \<Rightarrow> store \<times> chat option outcome" where
  "ChatModel_findByIdAndUpdate st cid u =
     (if fails st (ChatFindByIdAndUpdate cid u)
      then (called st (ChatFindByIdAndUpdate cid u), Throws)
      else
        (case find (hasId cid) (chatDocs st) of
           None \<Rightarrow> (called st (ChatFindByIdAndUpdate cid u), Returns None)
         | Some c \<Rightarrow>
             ((called st (ChatFindByIdAndUpdate cid u))
                \<lparr>chatDocs := updateFirst (hasId cid) (applyUpdate (clock st) u) (chatDocs st)\<rparr>,
              Returns (Some (applyUpdate (clock st) u c)))))"

definition ChatModel_findById :: "store \<Rightarrow> oid \<Rightarrow> store \<times> chat option outcome" where
  "ChatModel_findById st cid =
     (if fails st (ChatFindById cid) then (called st (ChatFindById cid), Throws)
      else (called st (ChatFindById cid), Returns (find (hasId cid) (chatDocs st))))"

text \<open>
  \<^verbatim>\<open>ChatModel.find({participants: {$all: p}})\<close>: the chats whose
  \<open>participants\<close> array holds every element of \<open>p\<close>. MongoDB's \<^verbatim>\<open>$all\<close> with an
  empty array matches no document. The query always returns an array; the null that
  \<^verbatim>\<open>getChatsByParticipants\<close> tests for is the \<open>None\<close> its result type leaves room
  for.
\<close>

definition matchesAll :: "string list \<Rightarrow> chat \<Rightarrow> bool" where
  "matchesAll p c = (p \<noteq> [] \<and> list_all (\<lambda>u. u \<in> set (participants c)) p)"

definition ChatModel_find_all :: "store \<Rightarrow> string list \<Rightarrow> store \<times> chat list option outcome" where
  "ChatModel_find_all st p =
     (if fails st (ChatFindAll p) then (called st (ChatFindAll p), Throws)
      else (called st (ChatFindAll p), Returns (Some (filter (matchesAll p) (chatDocs st)))))"

subsection \<open>The chat service\<close>

text \<open>
  A service function returns \<^verbatim>\<open>{error: string}\<close> (\<open>Inl\<close> the string) or the
  document (\<open>Inr\<close>). The two loops of \<^verbatim>\<open>saveChat\<close> are \<open>validateParticipants\<close>
  (which may leave the function with an error) and \<open>createMessages\<close>.
\<close>

fun validateParticipants :: "store \<Rightarrow> string list \<Rightarrow> store \<times> string option outcome" where
  "validateParticipants st [] = (st, Returns None)"
| "validateParticipants st (participantId # rest) =
     (case UserModel_findById st participantId of
        (st', Throws) \<Rightarrow> (st', Throws)
      | (st', Returns None) \<Rightarrow> (st', Returns (Some (''User not found: '' @ participantId)))
      | (st', Returns (Some user)) \<Rightarrow> validateParticipants st' rest)"

fun createMessages :: "store \<Rightarrow> message list \<Rightarrow> oid list \<Rightarrow> store \<times> oid list outcome" where
  "createMessages st [] messageIds = (st, Returns messageIds)"
| "createMessages st (m # rest) messageIds =
     (let messageInDB =
            m\<lparr>msgDateTime := Some (case msgDateTime m of Some t \<Rightarrow> t | None \<Rightarrow> clock st)\<rparr>
      in case MessageModel_create st messageInDB of
           (st', Throws) \<Rightarrow> (st', Throws)
         | (st', Returns createdMessage) \<Rightarrow>
             (case msg_id createdMessage of
                None \<Rightarrow> (st', Throws)
              | Some i \<Rightarrow> createMessages st' rest (messageIds @ [i])))"

definition saveChat :: "store \<Rightarrow> createChatPayload \<Rightarrow> store \<times> (string + chat)" where
  "saveChat st chatPayload =
     (case validateParticipants st (p_participants chatPayload) of
        (st1, Throws) \<Rightarrow> (st1, Inl ''Failed to save chat'')
      | (st1, Returns (Some e)) \<Rightarrow> (st1, Inl e)
      | (st1, Returns None) \<Rightarrow>
          (case createMessages st1 (p_messages chatPayload) [] of
             (st2, Throws) \<Rightarrow> (st2, Inl ''Failed to save chat'')
           | (st2, Returns messageIds) \<Rightarrow>
               (case ChatModel_create st2 (p_participants chatPayload) messageIds of
                  (st3, Throws) \<Rightarrow> (st3, Inl ''Failed to save chat'')
                | (st3, Returns savedChat) \<Rightarrow> (st3, Inr savedChat))))"

definition createMessage :: "store \<Rightarrow> message \<Rightarrow> store \<times> (string + message)" where
  "createMessage st messageData =
     (case MessageModel_create st messageData of
        (st', Throws) \<Rightarrow> (st', Inl ''Failed create message'')
      | (st', Returns savedMessage) \<Rightarrow> (st', Inr savedMessage))"

definition addMessageToChat :: "store \<Rightarrow> oid \<Rightarrow> oid \<Rightarrow> store \<times> (string + chat)" where
  "addMessageToChat st chatId messageId =
     (case ChatModel_findByIdAndUpdate st chatId (PushMessage messageId) of
        (st', Throws) \<Rightarrow> (st', Inl ''Failed to add message to chat'')
      | (st', Returns None) \<Rightarrow> (st', Inl ''Chat not found'')
      | (st', Returns (Some updatedChat)) \<Rightarrow> (st', Inr updatedChat))"

definition getChat :: "store \<Rightarrow> oid \<Rightarrow> store \<times> (string + chat)" where
  "getChat st chatId =
     (case ChatModel_findById st chatId of
        (st', Throws) \<Rightarrow> (st', Inl ''Failed to get chat'')
      | (st', Returns None) \<Rightarrow> (st', Inl ''Chat not found'')
      | (st', Returns (Some c)) \<Rightarrow> (st', Inr c))"

definition getChatsByParticipants :: "store \<Rightarrow> string list \<Rightarrow> store \<times> chat list" where
  "getChatsByParticipants st p =
     (case ChatModel_find_all st p of
        (st', Throws) \<Rightarrow> (st', [])
      | (st', Returns None) \<Rightarrow> (st', [])
      | (st', Returns (Some cs)) \<Rightarrow> (st', cs))"

definition addParticipantToChat :: "store \<Rightarrow> oid \<Rightarrow> string \<Rightarrow> store \<times> (string + chat)" where
  "addParticipantToChat st chatId userId =
     (case UserModel_findById st userId of
        (st1, Throws) \<Rightarrow> (st1, Inl ''Failed to add participant to chat'')
      | (st1, Returns None) \<Rightarrow> (st1, Inl (''User not found: '' @ userId))
      | (st1, Returns (Some user)) \<Rightarrow>
          (case ChatModel_findByIdAndUpdate st1 chatId (AddToSetParticipant userId) of
             (st2, Throws) \<Rightarrow> (st2, Inl ''Failed to add participant to chat'')
           | (st2, Returns None) \<Rightarrow> (st2, Inl ''Failed to add participant to chat'')
           | (st2, Returns (Some updatedChat)) \<Rightarrow> (st2, Inr updatedChat)))"

subsection \<open>Enrichment\<close>

record enrichedChat =
  e_id :: "oid option"
  e_participants :: "string list"
  e_messages :: "message list"
  e_createdAt :: time
  e_updatedAt :: time

text \<open>
  Modelled from the spec: \<^verbatim>\<open>populateDocument\<close> of \<^verbatim>\<open>utils/database.util\<close> is
  not among the sources. Section 4.2 of the specification gives
  \<^verbatim>\<open>populate(entityId, kind) -> EnrichedEntity | Error(NotFound)\<close>: for a chat it
  replaces the message ids by the full Message objects and resolves the participant
  identifiers to display objects (here the username itself), it is read-only, and it
  returns its error as a value. The controller only ever passes the kind
  \<^verbatim>\<open>'chat'\<close>, and may pass an undefined id (\<^verbatim>\<open>result._id?.toString()\<close>). The
  texts of its errors are not given by the specification; nothing below reads them.
\<close>

definition populateDocument :: "store \<Rightarrow> oid option \<Rightarrow> store \<times> (string + enrichedChat)" where
  "populateDocument st idOpt =
     (case idOpt of
        None \<Rightarrow> (st, Inl ''Error when fetching and populating a document: no id'')
      | Some i \<Rightarrow>
          (if fails st (ChatPopulate i)
           then (called st (ChatPopulate i),
                 Inl ''Error when fetching and populating a document: storage'')
           else
             (case find (hasId i) (chatDocs st) of
                None \<Rightarrow> (called st (ChatPopulate i),
                          Inl ''Error when fetching and populating a document: not found'')
              | Some c \<Rightarrow>
                  (called st (ChatPopulate i),
                   Inr \<lparr>e_id = chat_id c, e_participants = participants c,
                        e_messages =
                          List.map_filter
                            (\<lambda>i. find (\<lambda>m. msg_id m = Some i) (messageDocs st)) (messages c),
                        e_createdAt = createdAt c, e_updatedAt = updatedAt c\<rparr>))))"

subsection \<open>The chat controller\<close>

text \<open>
  A route handler receives the request and answers with a status and a body; what it
  emits on the socket is the list of \<^verbatim>\<open>socket.to(room).emit('chatUpdate', ...)\<close>
  calls, in order. The \<open>chat\<close> of an emitted event and a JSON body are what
  \<^verbatim>\<open>populateDocument\<close> returned: the enriched chat (\<open>Inr\<close>) or the object
  \<^verbatim>\<open>{error}\<close> (\<open>Inl\<close>).
\<close>

datatype body =
    Text string
  | ChatJson "string + enrichedChat"
  | ChatsJson "enrichedChat list"

record response =
  status :: nat
  body :: body

record emitted =
  room :: string
  ev_chat :: "string + enrichedChat"
  ev_type :: string

record handled =
  r_store :: store
  r_response :: response
  r_emitted :: "emitted list"

definition respond :: "store \<Rightarrow> nat \<Rightarrow> body \<Rightarrow> handled" where
  "respond st code b = \<lparr>r_store = st, r_response = \<lparr>status = code, body = b\<rparr>, r_emitted = []\<rparr>"

text \<open>\<^verbatim>\<open>!x\<close> on a string that may be missing: missing and the empty string are falsy.\<close>

definition falsy :: "string option \<Rightarrow> bool" where
  "falsy s = (s = None \<or> s = Some [])"

text \<open>
  The body of a create request: \<open>None\<close> is a property that is missing or is not an
  array.
\<close>

record createChatBody =
  b_participants :: "string list option"
  b_messages :: "message list option"

definition isCreateChatRequestValid :: "createChatBody \<Rightarrow> bool" where
  "isCreateChatRequestValid req =
     (case b_participants req of
        None \<Rightarrow> False
      | Some ps \<Rightarrow> if ps = [] \<or> b_messages req = None then False else True)"

record addMessageRequest =
  am_body :: message
  am_chatId :: "string option"

definition isAddMessageRequestValid :: "addMessageRequest \<Rightarrow> bool" where
  "isAddMessageRequestValid req =
     (if falsy (msg (am_body req)) \<or> falsy (msgFrom (am_body req)) \<or> falsy (am_chatId req)
      then False else True)"

definition createdEvent :: "enrichedChat \<Rightarrow> string \<Rightarrow> emitted" where
  "createdEvent enrichedResult participant =
     \<lparr>room = participant, ev_chat = Inr enrichedResult, ev_type = ''created''\<rparr>"

definition createChatRoute :: "store \<Rightarrow> createChatBody \<Rightarrow> handled" where
  "createChatRoute st req =
     (if \<not> isCreateChatRequestValid req then respond st 400 (Text ''Invalid body'')
      else
        (case (b_participants req, b_messages req) of
           (Some ps, Some ms) \<Rightarrow>
             (case saveChat st \<lparr>p_participants = ps, p_messages = ms\<rparr> of
                (st1, Inl e) \<Rightarrow>
                  respond st1 500 (Text (''Error when creating chat: Error: '' @ e))
              | (st1, Inr result) \<Rightarrow>
                  (case populateDocument st1 (chat_id result) of
                     (st2, Inl e) \<Rightarrow>
                       respond st2 500 (Text (''Error when creating chat: Error: '' @ e))
                   | (st2, Inr enrichedResult) \<Rightarrow>
                       \<lparr>r_store = st2,
                        r_response = \<lparr>status = 200, body = ChatJson (Inr enrichedResult)\<rparr>,
                        r_emitted = map (createdEvent enrichedResult) (participants result)\<rparr>))
         | _ \<Rightarrow> respond st 400 (Text ''Invalid body'')))"

text \<open>
  The message the route builds: \<^verbatim>\<open>{...req.body, type: 'direct', msgDateTime:
  req.body.msgDateTime || new Date()}\<close>.
\<close>

definition routeMessage :: "store \<Rightarrow> message \<Rightarrow> message" where
  "routeMessage st b =
     b\<lparr>msgType := Some ''direct'',
       msgDateTime := Some (case msgDateTime b of Some t \<Rightarrow> t | None \<Rightarrow> clock st)\<rparr>"

definition addMessageToChatRoute :: "store \<Rightarrow> addMessageRequest \<Rightarrow> handled" where
  "addMessageToChatRoute st req =
     (if \<not> isAddMessageRequestValid req then respond st 400 (Text ''Invalid body'')
      else
        (case am_chatId req of
           None \<Rightarrow> respond st 400 (Text ''Invalid body'')
         | Some chatId \<Rightarrow>
             (case createMessage st (routeMessage st (am_body req)) of
                (st1, Inl e) \<Rightarrow>
                  respond st1 500 (Text (''Error when adding message to chat: Error: '' @ e))
              | (st1, Inr messageResult) \<Rightarrow>
                  (case msg_id messageResult of
                     None \<Rightarrow>
                       respond st1 500
                         (Text ''Error when adding message to chat: Error: Failed to add message to chat'')
                   | Some messageId \<Rightarrow>
                       (case addMessageToChat st1 chatId messageId of
                          (st2, Inl e) \<Rightarrow>
                            respond st2 500
                              (Text (''Error when adding message to chat: Error: '' @ e))
                        | (st2, Inr chatResult) \<Rightarrow>
                            (case chat_id chatResult of
                               None \<Rightarrow>
                                 respond st2 500
                                   (Text ''Error when adding message to chat: Error: Invalid chat found'')
                             | Some cid \<Rightarrow>
                                 (case populateDocument st2 (Some cid) of
                                    (st3, enrichedChat) \<Rightarrow>
                                      \<lparr>r_store = st3,
                                       r_response = \<lparr>status = 200, body = ChatJson enrichedChat\<rparr>,
                                       r_emitted =
                                         [\<lparr>room = chatId, ev_chat = enrichedChat,
                                           ev_type = ''newMessage''\<rparr>]\<rparr>)))))))"

text \<open>The loop of \<^verbatim>\<open>getChatsByUserRoute\<close>; \<open>Inl\<close> is the message of the error it throws.\<close>

fun enrichChats ::
  "store \<Rightarrow> chat list \<Rightarrow> enrichedChat list \<Rightarrow> store \<times> (string + enrichedChat list)" where
  "enrichChats st [] enrichedChats = (st, Inr enrichedChats)"
| "enrichChats st (c # rest) enrichedChats =
     (case chat_id c of
        None \<Rightarrow> (st, Inl ''Invalid chat found'')
      | Some i \<Rightarrow>
          (case populateDocument st (Some i) of
             (st', Inl e) \<Rightarrow> (st', Inl ''Failed populating chats'')
           | (st', Inr enrichedChat) \<Rightarrow> enrichChats st' rest (enrichedChats @ [enrichedChat])))"

definition getChatsByUserRoute :: "store \<Rightarrow> string option \<Rightarrow> handled" where
  "getChatsByUserRoute st username =
     (if falsy username then respond st 400 (Text ''Invalid body'')
      else
        (case username of
           None \<Rightarrow> respond st 400 (Text ''Invalid body'')
         | Some u \<Rightarrow>
             (case getChatsByParticipants st [u] of
                (st1, chatResult) \<Rightarrow>
                  (case enrichChats st1 chatResult [] of
                     (st2, Inl errorMessage) \<Rightarrow>
                       respond st2 500 (Text (''Error retrieving chat: '' @ errorMessage))
                   | (st2, Inr enrichedChats) \<Rightarrow> respond st2 200 (ChatsJson enrichedChats)))))"

definition getChatRoute :: "store \<Rightarrow> string \<Rightarrow> handled" where
  "getChatRoute st chatId =
     (case getChat st chatId of
        (st1, Inl e) \<Rightarrow> respond st1 500 (Text ''Failed to get chat by chatId'')
      | (st1, Inr result) \<Rightarrow>
          (case populateDocument st1 (chat_id result) of
             (st2, Inl e) \<Rightarrow> respond st2 500 (Text ''Failed to get chat by chatId'')
           | (st2, Inr enrichedResult) \<Rightarrow>
               respond st2 200 (ChatJson (Inr enrichedResult))))"

text \<open>
  The GET routes of the router, in the order they are registered:
  \<^verbatim>\<open>/getChatsByUser/:username\<close>, then \<^verbatim>\<open>/:chatId\<close>. A path is matched segment by
  segment; a parameter matches one non-empty segment, and one trailing slash is
  ignored. The literal segment is compared as it is spelled. A path neither route
  matches leaves the router; that is the answer 404 here.
\<close>

fun splitPath :: "string \<Rightarrow> string list" where
  "splitPath [] = [[]]"
| "splitPath (c # cs) =
     (if c = CHR ''/'' then [] # splitPath cs
      else (case splitPath cs of [] \<Rightarrow> [[c]] | s # ss \<Rightarrow> (c # s) # ss))"

definition segments :: "string \<Rightarrow> string list" where
  "segments path =
     (let ss = tl (splitPath path) in if ss \<noteq> [] \<and> last ss = [] then butlast ss else ss)"

datatype target = GetChatsByUser string | GetChat string

definition routeGet :: "string \<Rightarrow> target option" where
  "routeGet path =
     (case segments path of
        [c] \<Rightarrow> if c \<noteq> [] then Some (GetChat c) else None
      | [a, u] \<Rightarrow> if a = ''getChatsByUser'' \<and> u \<noteq> [] then Some (GetChatsByUser u) else None
      | _ \<Rightarrow> None)"

definition dispatchGet :: "store \<Rightarrow> string \<Rightarrow> handled" where
  "dispatchGet st path =
     (case routeGet path of
        Some (GetChatsByUser u) \<Rightarrow> getChatsByUserRoute st (Some u)
      | Some (GetChat c) \<Rightarrow> getChatRoute st c
      | None \<Rightarrow> respond st 404 (Text ''Not Found''))"

subsection \<open>The client hook \<^verbatim>\<open>useDirectMessage\<close>\<close>

text \<open>
  The chat as the client holds it, the payload of a \<^verbatim>\<open>chatUpdate\<close> event (its
  \<open>type\<close> is whatever string the server sent), and the state of the hook.
  \<^verbatim>\<open>handleChatUpdate\<close> either throws (\<open>Inl\<close> the message of the error) or returns
  with the state its \<^verbatim>\<open>setChats\<close> and \<^verbatim>\<open>setSelectedChat\<close> calls leave.
\<close>

record clientChat =
  c_id :: "string option"
  c_participants :: "string list"
  c_messages :: "message list"

record chatUpdatePayload =
  chat :: clientChat
  type :: string

record hookState =
  showCreatePanel :: bool
  chatToCreate :: string
  selectedChat :: "clientChat option"
  chats :: "clientChat list"
  newMessage :: string

text \<open>\<^verbatim>\<open>Array.prototype.flat\<close> on an array of strings copies it.\<close>

definition flat :: "string list \<Rightarrow> string list" where
  "flat ps = ps"

definition handleChatUpdate :: "string \<Rightarrow> hookState \<Rightarrow> chatUpdatePayload \<Rightarrow> string + hookState" where
  "handleChatUpdate username st chatUpdate =
     (let ps = c_participants (chat chatUpdate);
          ps' = (if length ps > 0 then flat ps else ps)
      in
        if type chatUpdate = ''created'' then
          (if username \<in> set ps' then
             Inr (st\<lparr>chats :=
                    (if list_ex (\<lambda>c. c_id c = c_id (chat chatUpdate)) (chats st)
                     then chats st
                     else chats st @ [chat chatUpdate])\<rparr>)
           else Inr st)
        else if type chatUpdate = ''newMessage'' then
          Inr (st\<lparr>selectedChat :=
                    (case selectedChat st of
                       None \<Rightarrow> None
                     | Some sel \<Rightarrow>
                         if c_id sel = c_id (chat chatUpdate) then Some (chat chatUpdate)
                         else Some sel),
                  chats :=
                    map (\<lambda>c. if c_id c = c_id (chat chatUpdate) then chat chatUpdate else c)
                      (chats st)\<rparr>)
        else Inl (''Invalid chat update type: '' @ type chatUpdate))"

subsection \<open>Example stores and requests\<close>

text \<open>
  A store whose storage never fails, whose driver casts the strings of 24 hexadecimal
  digits and generates such strings, holding the users alice and bob and one chat
  between them; and the same store with every enrichment call failing.
\<close>

definition isObjectIdString :: "string \<Rightarrow> bool" where
  "isObjectIdString s =
     (length s = 24 \<and> list_all (\<lambda>c. c \<in> set ''0123456789abcdefABCDEF'') s)"

fun hexString :: "nat \<Rightarrow> nat \<Rightarrow> string" where
  "hexString 0 n = []"
| "hexString (Suc w) n = hexString w (n div 16) @ [''0123456789abcdef'' ! (n mod 16)]"

definition exampleChatId :: oid where
  "exampleChatId = ''64b7f3a2c91e4d0a5b6c7d8e''"

definition firstMessageId :: oid where
  "firstMessageId = ''64b7f3a2c91e4d0a5b6c7d01''"

definition secondMessageId :: oid where
  "secondMessageId = ''64b7f3a2c91e4d0a5b6c7d02''"

definition neverThrows :: "db_op list \<Rightarrow> db_op \<Rightarrow> bool" where
  "neverThrows h op = False"

definition populateThrows :: "db_op list \<Rightarrow> db_op \<Rightarrow> bool" where
  "populateThrows h op = (case op of ChatPopulate i \<Rightarrow> True | _ \<Rightarrow> False)"

definition exampleChat :: chat where
  "exampleChat = \<lparr>chat_id = Some exampleChatId, participants = [''alice'', ''bob''],
                  messages = [firstMessageId], createdAt = 1, updatedAt = 1\<rparr>"

definition exampleStore :: store where
  "exampleStore =
     \<lparr>userDocs = [''alice'', ''bob''], messageDocs = [], chatDocs = [exampleChat], clock = 5,
      newObjectId = hexString 24, oidCount = 0, castsObjectId = isObjectIdString,
      throws = neverThrows, calls = []\<rparr>"

definition faultyStore :: store where
  "faultyStore = exampleStore\<lparr>throws := populateThrows\<rparr>"

definition bareMessage :: message where
  "bareMessage = \<lparr>msg_id = None, msg = Some ''hi'', msgFrom = Some ''alice'',
                  msgDateTime = None, msgType = None\<rparr>"

definition examplePayload :: createChatPayload where
  "examplePayload = \<lparr>p_participants = [''alice'', ''carol''], p_messages = [bareMessage]\<rparr>"


definition exampleRequest :: addMessageRequest where
  "exampleRequest = \<lparr>am_body = bareMessage, am_chatId = Some exampleChatId\<rparr>"

definition exampleCreate :: createChatBody where
  "exampleCreate = \<lparr>b_participants = Some [''alice'', ''bob''], b_messages = Some []\<rparr>"

definition exampleClientChat :: clientChat where
  "exampleClientChat = \<lparr>c_id = Some exampleChatId, c_participants = [''alice'', ''bob''], c_messages = []\<rparr>"

definition exampleHook :: hookState where
  "exampleHook = \<lparr>showCreatePanel = False, chatToCreate = [], selectedChat = None, chats = [],
                  newMessage = []\<rparr>"

definition datedMessage :: message where
  "datedMessage = \<lparr>msg_id = None, msg = Some ''hello'', msgFrom = Some ''bob'',
                   msgDateTime = Some 3, msgType = Some ''global''\<rparr>"

section \<open>Properties\<close>

subsection \<open>Auxiliary facts\<close>

lemma called_fields [simp]:
  "userDocs (called st op) = userDocs st"
  "messageDocs (called st op) = messageDocs st"
  "chatDocs (called st op) = chatDocs st"
  "clock (called st op) = clock st"
  "newObjectId (called st op) = newObjectId st"
  "oidCount (called st op) = oidCount st"
  "throws (called st op) = throws st"
  "castsObjectId (called st op) = castsObjectId st"
  "calls (called st op) = calls st @ [op]"
  by (simp_all add: called_def)

lemma find_eq_Some_mem: "find (\<lambda>u. u = x) xs = Some y \<Longrightarrow> x \<in> set xs"
  by (induction xs) (auto split: if_splits)

lemma find_eq_None_mem: "(find (\<lambda>u. u = x) xs = None) = (x \<notin> set xs)"
  by (induction xs) auto

lemma validateParticipants_store:
  "\<exists>k. fst (validateParticipants st ps) = st\<lparr>calls := calls st @ map UserFindById (take k ps)\<rparr>"
proof (induction ps arbitrary: st)
  case Nil
  then show ?case by simp
next
  case (Cons p ps)
  let ?st = "called st (UserFindById p)"
  from Cons.IH [of ?st] obtain k where
    k: "fst (validateParticipants ?st ps) = ?st\<lparr>calls := calls ?st @ map UserFindById (take k ps)\<rparr>"
    by blast
  have one: "?st = st\<lparr>calls := calls st @ map UserFindById (take (Suc 0) (p # ps))\<rparr>"
    by (simp add: called_def)
  have more: "?st\<lparr>calls := calls ?st @ map UserFindById (take k ps)\<rparr>
      = st\<lparr>calls := calls st @ map UserFindById (take (Suc k) (p # ps))\<rparr>"
    by (simp add: called_def)
  show ?case
  proof (cases "fails st (UserFindById p)")
    case True
    then have "fst (validateParticipants st (p # ps)) = ?st"
      by (simp add: UserModel_findById_def)
    with one show ?thesis by metis
  next
    case False
    show ?thesis
    proof (cases "find (\<lambda>u. u = p) (userDocs st)")
      case None
      with False have "fst (validateParticipants st (p # ps)) = ?st"
        by (simp add: UserModel_findById_def)
      with one show ?thesis by metis
    next
      case (Some u)
      with False have "fst (validateParticipants st (p # ps)) = fst (validateParticipants ?st ps)"
        by (simp add: UserModel_findById_def)
      with k more show ?thesis by metis
    qed
  qed
qed

lemma validateParticipants_complete:
  "snd (validateParticipants st ps) = Returns None \<Longrightarrow> set ps \<subseteq> set (userDocs st)"
proof (induction ps arbitrary: st)
  case Nil
  then show ?case by simp
next
  case (Cons p ps)
  from Cons.prems have nf: "\<not> fails st (UserFindById p)"
    by (auto simp: UserModel_findById_def split: if_splits)
  from Cons.prems nf obtain u where u: "find (\<lambda>u. u = p) (userDocs st) = Some u"
    by (cases "find (\<lambda>u. u = p) (userDocs st)") (auto simp: UserModel_findById_def)
  from Cons.prems nf u
  have "snd (validateParticipants (called st (UserFindById p)) ps) = Returns None"
    by (simp add: UserModel_findById_def)
  from Cons.IH [OF this] find_eq_Some_mem [OF u] show ?case by simp
qed

lemma validateParticipants_first_missing:
  "\<forall>h q. \<not> throws st h (UserFindById q) \<Longrightarrow>
   find (\<lambda>q. q \<notin> set (userDocs st)) ps = Some p \<Longrightarrow>
   snd (validateParticipants st ps) = Returns (Some (''User not found: '' @ p))"
proof (induction ps arbitrary: st)
  case Nil
  then show ?case by simp
next
  case (Cons a ps)
  have nf: "\<not> fails st (UserFindById a)"
    using Cons.prems(1) by (simp add: fails_def)
  show ?case
  proof (cases "a \<in> set (userDocs st)")
    case True
    then obtain u where u: "find (\<lambda>u. u = a) (userDocs st) = Some u"
      using find_eq_None_mem [of a "userDocs st"] by (cases "find (\<lambda>u. u = a) (userDocs st)") auto
    from True Cons.prems(2) have "find (\<lambda>q. q \<notin> set (userDocs st)) ps = Some p" by simp
    then have "snd (validateParticipants (called st (UserFindById a)) ps)
        = Returns (Some (''User not found: '' @ p))"
      using Cons.IH [of "called st (UserFindById a)"] Cons.prems(1) by simp
    with nf u show ?thesis by (simp add: UserModel_findById_def)
  next
    case False
    with Cons.prems(2) have "p = a" by simp
    moreover from False have "find (\<lambda>u. u = a) (userDocs st) = None"
      by (simp add: find_eq_None_mem)
    ultimately show ?thesis using nf by (simp add: UserModel_findById_def)
  qed
qed




lemma map_updateFirst_same:
  "find P xs = Some c \<Longrightarrow> g (f c) = g c \<Longrightarrow> map g (updateFirst P f xs) = map g xs"
  by (induction xs) (auto split: if_splits)

lemma set_participants_addToSet:
  "set (participants (applyUpdate t (AddToSetParticipant u) c)) = insert u (set (participants c))"
  by auto

lemma matchesAll_subset: "matchesAll p c = (p \<noteq> [] \<and> set p \<subseteq> set (participants c))"
  by (auto simp: matchesAll_def list_all_iff)

lemma filter_matchesAll:
  "p \<noteq> [] \<Longrightarrow> filter (matchesAll p) cs = filter (\<lambda>c. set p \<subseteq> set (participants c)) cs"
  by (rule filter_cong) (simp_all add: matchesAll_subset)

lemma filter_matchesAll_Nil: "filter (matchesAll []) cs = []"
  by (simp add: matchesAll_def)

lemma hexString_24_0 [simp]: "hexString 24 0 = ''000000000000000000000000''"
  by code_simp

lemma exampleIds [simp]:
  "isObjectIdString exampleChatId"
  "isObjectIdString firstMessageId"
  "isObjectIdString secondMessageId"
  "isObjectIdString ''000000000000000000000000''"
  "\<not> isObjectIdString ''c9''"
  "\<not> isObjectIdString ''getChatsByUser''"
  "exampleChatId \<noteq> []"
  "exampleChatId \<noteq> ''000000000000000000000000''"
  "''000000000000000000000000'' \<noteq> exampleChatId"
  "exampleChatId \<noteq> ''c9''"
  "exampleChatId \<noteq> ''getChatsByUser''"
  by (simp_all add: isObjectIdString_def exampleChatId_def firstMessageId_def
      secondMessageId_def)

lemma exampleStore_fails [simp]:
  "fails exampleStore op = (\<not> castable isObjectIdString op)"
  by (simp add: fails_def exampleStore_def neverThrows_def)

lemma exampleStore_fields [simp]:
  "userDocs exampleStore = [''alice'', ''bob'']"
  "messageDocs exampleStore = []"
  "chatDocs exampleStore = [exampleChat]"
  "clock exampleStore = 5"
  "oidCount exampleStore = 0"
  "calls exampleStore = []"
  "throws exampleStore = neverThrows"
  "castsObjectId exampleStore = isObjectIdString"
  "newObjectId exampleStore = hexString 24"
  by (simp_all add: exampleStore_def)

lemma neverThrows_fails [simp]:
  "throws s = neverThrows \<Longrightarrow> fails s op = (\<not> castable (castsObjectId s) op)"
  by (simp add: fails_def neverThrows_def)

lemma saveChat_participants:
  "saveChat st payload = (st', Inr c) \<Longrightarrow> participants c = p_participants payload"
  by (auto simp: saveChat_def ChatModel_create_def Let_def
      split: prod.splits outcome.splits option.splits if_splits)

lemma createChatRoute_ok:
  assumes "status (r_response (createChatRoute st req)) = 200"
  shows "\<exists>ps e. b_participants req = Some ps \<and>
           body (r_response (createChatRoute st req)) = ChatJson (Inr e) \<and>
           r_emitted (createChatRoute st req) = map (createdEvent e) ps"
proof -
  from assms have valid: "isCreateChatRequestValid req"
    by (auto simp: createChatRoute_def respond_def split: if_splits)
  then obtain ps ms where ps: "b_participants req = Some ps" and ms: "b_messages req = Some ms"
    by (auto simp: isCreateChatRequestValid_def split: option.splits if_splits)
  obtain st1 r where s: "saveChat st \<lparr>p_participants = ps, p_messages = ms\<rparr> = (st1, r)"
    by (cases "saveChat st \<lparr>p_participants = ps, p_messages = ms\<rparr>")
  from assms valid ps ms s obtain c where c: "r = Inr c"
    by (cases r) (auto simp: createChatRoute_def respond_def)
  obtain st2 q where p: "populateDocument st1 (chat_id c) = (st2, q)"
    by (cases "populateDocument st1 (chat_id c)")
  from assms valid ps ms s c p obtain e where e: "q = Inr e"
    by (cases q) (auto simp: createChatRoute_def respond_def)
  from saveChat_participants s c have "participants c = ps" by fastforce
  with valid ps ms s c p e show ?thesis
    by (simp add: createChatRoute_def)
qed

lemma createChatRoute_not_ok:
  "status (r_response (createChatRoute st req)) \<noteq> 200 \<Longrightarrow> r_emitted (createChatRoute st req) = []"
  by (auto simp: createChatRoute_def respond_def
      split: if_splits option.splits prod.splits sum.splits)

lemma addMessageToChatRoute_ok:
  "status (r_response (addMessageToChatRoute st req)) = 200 \<Longrightarrow>
   \<exists>chatId e. am_chatId req = Some chatId \<and>
      body (r_response (addMessageToChatRoute st req)) = ChatJson e \<and>
      r_emitted (addMessageToChatRoute st req)
        = [\<lparr>room = chatId, ev_chat = e, ev_type = ''newMessage''\<rparr>]"
  by (auto simp: addMessageToChatRoute_def respond_def
      split: if_splits option.splits prod.splits sum.splits)

lemma addMessageToChatRoute_not_ok:
  "status (r_response (addMessageToChatRoute st req)) \<noteq> 200 \<Longrightarrow>
   r_emitted (addMessageToChatRoute st req) = []"
  by (auto simp: addMessageToChatRoute_def respond_def
      split: if_splits option.splits prod.splits sum.splits)

lemma createChatRoute_example_status:
  "status (r_response (createChatRoute exampleStore exampleCreate)) = 200"
  by (simp add: createChatRoute_def exampleCreate_def isCreateChatRequestValid_def saveChat_def
      UserModel_findById_def ChatModel_create_def populateDocument_def hasId_def Let_def
      exampleChat_def)

lemma addMessageToChatRoute_example_status:
  "status (r_response (addMessageToChatRoute exampleStore exampleRequest)) = 200"
  by (simp add: addMessageToChatRoute_def exampleRequest_def isAddMessageRequestValid_def
      falsy_def bareMessage_def routeMessage_def createMessage_def MessageModel_create_def
      addMessageToChat_def ChatModel_findByIdAndUpdate_def populateDocument_def hasId_def
      Let_def exampleChat_def)

lemma createMessage_ok:
  "\<not> fails st (MessageCreate m) \<Longrightarrow>
   \<exists>d. snd (createMessage st m) = Inr d \<and>
       messageDocs (fst (createMessage st m)) = messageDocs st @ [d] \<and>
       msg d = msg m \<and> msgFrom d = msgFrom m \<and>
       msgType d = Some (case msgType m of Some k \<Rightarrow> k | None \<Rightarrow> ''direct'') \<and>
       msgDateTime d = Some (case msgDateTime m of Some t \<Rightarrow> t | None \<Rightarrow> clock st) \<and>
       msg_id d = (case msg_id m of Some i \<Rightarrow> Some i | None \<Rightarrow> Some (newObjectId st (oidCount st)))"
  by (cases "msg_id m")
    (simp_all add: createMessage_def MessageModel_create_def messageDefaults_def Let_def)

lemma addMessageToChat_messageDocs [simp]:
  "messageDocs (fst (addMessageToChat st c m)) = messageDocs st"
  by (simp add: addMessageToChat_def ChatModel_findByIdAndUpdate_def
      split: option.splits)

lemma populateDocument_messageDocs [simp]:
  "messageDocs (fst (populateDocument st i)) = messageDocs st"
  by (simp add: populateDocument_def split: option.splits)

lemma addMessageToChatRoute_messageDocs:
  "isAddMessageRequestValid req \<Longrightarrow>
   messageDocs (r_store (addMessageToChatRoute st req))
     = messageDocs (fst (createMessage st (routeMessage st (am_body req))))"
proof -
  assume v: "isAddMessageRequestValid req"
  then obtain chatId where c: "am_chatId req = Some chatId"
    by (cases "am_chatId req") (auto simp: isAddMessageRequestValid_def falsy_def)
  obtain st1 r where cm: "createMessage st (routeMessage st (am_body req)) = (st1, r)"
    by (cases "createMessage st (routeMessage st (am_body req))")
  show ?thesis
  proof (cases r)
    case (Inl e)
    with v c cm show ?thesis by (simp add: addMessageToChatRoute_def respond_def)
  next
    case (Inr d)
    show ?thesis
    proof (cases "msg_id d")
      case None
      with v c cm Inr show ?thesis by (simp add: addMessageToChatRoute_def respond_def)
    next
      case (Some mid)
      have a: "messageDocs (fst (addMessageToChat st1 chatId mid)) = messageDocs st1" by simp
      obtain st2 q where am: "addMessageToChat st1 chatId mid = (st2, q)"
        by (cases "addMessageToChat st1 chatId mid")
      with a have st2: "messageDocs st2 = messageDocs st1" by simp
      show ?thesis
      proof (cases q)
        case (Inl e)
        with v c cm Inr Some am st2 show ?thesis
          by (simp add: addMessageToChatRoute_def respond_def \<open>r = Inr d\<close>)
      next
        case (Inr ch)
        show ?thesis
        proof (cases "chat_id ch")
          case None
          with v c cm Some am st2 Inr \<open>r = Inr d\<close> show ?thesis
            by (simp add: addMessageToChatRoute_def respond_def)
        next
          case (Some cid)
          have "messageDocs (fst (populateDocument st2 (Some cid))) = messageDocs st2" by simp
          with v c cm \<open>msg_id d = Some mid\<close> am st2 Inr \<open>r = Inr d\<close> Some show ?thesis
            by (cases "populateDocument st2 (Some cid)")
              (simp add: addMessageToChatRoute_def respond_def)
        qed
      qed
    qed
  qed
qed

lemma faultyStore_fields [simp]:
  "userDocs faultyStore = [''alice'', ''bob'']"
  "messageDocs faultyStore = []"
  "chatDocs faultyStore = [exampleChat]"
  "clock faultyStore = 5"
  "oidCount faultyStore = 0"
  "calls faultyStore = []"
  "throws faultyStore = populateThrows"
  "castsObjectId faultyStore = isObjectIdString"
  "newObjectId faultyStore = hexString 24"
  by (simp_all add: faultyStore_def exampleStore_def)

lemma populateThrows_fails [simp]:
  "throws s = populateThrows \<Longrightarrow>
   fails s op = ((case op of ChatPopulate i \<Rightarrow> True | _ \<Rightarrow> False)
                 \<or> \<not> castable (castsObjectId s) op)"
  by (simp add: fails_def populateThrows_def)


lemma getChatsByUserRoute_guard:
  assumes "username = None \<or> username = Some []"
  shows "r_response (getChatsByUserRoute st username) = \<lparr>status = 400, body = Text ''Invalid body''\<rparr> \<and>
         r_store (getChatsByUserRoute st username) = st \<and>
         calls (r_store (getChatsByUserRoute st username)) = calls st \<and>
         r_emitted (getChatsByUserRoute st username) = []"
  using assms by (simp add: getChatsByUserRoute_def falsy_def respond_def)


lemma hasId_exampleChat [simp]: "hasId i exampleChat = (i = exampleChatId)"
  by (auto simp: hasId_def exampleChat_def)

lemma exampleIds_distinct [simp]:
  "firstMessageId \<noteq> exampleChatId"
  "''c9'' \<noteq> exampleChatId"
  "''getChatsByUser'' \<noteq> exampleChatId"
  by (simp_all add: exampleChatId_def firstMessageId_def)

lemma createMessage_persists:
  "\<not> fails st (MessageCreate m) \<Longrightarrow>
   snd (createMessage st m)
     = Inr (m\<lparr>msgType := Some (case msgType m of Some k \<Rightarrow> k | None \<Rightarrow> ''direct''),
              msgDateTime := Some (case msgDateTime m of Some t \<Rightarrow> t | None \<Rightarrow> clock st),
              msg_id := (case msg_id m of Some i \<Rightarrow> Some i
                         | None \<Rightarrow> Some (newObjectId st (oidCount st)))\<rparr>) \<and>
   messageDocs (fst (createMessage st m))
     = messageDocs st @
       [m\<lparr>msgType := Some (case msgType m of Some k \<Rightarrow> k | None \<Rightarrow> ''direct''),
          msgDateTime := Some (case msgDateTime m of Some t \<Rightarrow> t | None \<Rightarrow> clock st),
          msg_id := (case msg_id m of Some i \<Rightarrow> Some i
                     | None \<Rightarrow> Some (newObjectId st (oidCount st)))\<rparr>]"
  by (cases "msg_id m")
    (simp_all add: createMessage_def MessageModel_create_def messageDefaults_def Let_def)

lemma routeGet_username:
  "routeGet path = Some (GetChatsByUser u) \<Longrightarrow> u \<noteq> []"
  by (auto simp: routeGet_def split: list.splits if_splits)

lemma routeGet_empty_username [simp]:
  "routeGet ''/getChatsByUser/'' = Some (GetChat ''getChatsByUser'')"
  "routeGet ''/getChatsByUser'' = Some (GetChat ''getChatsByUser'')"
  by (simp_all add: routeGet_def segments_def)

lemma routeGet_bob [simp]:
  "routeGet ''/getChatsByUser/bob'' = Some (GetChatsByUser ''bob'')"
  by (simp add: routeGet_def segments_def)

lemma getChatRoute_absent:
  "find (hasId chatId) (chatDocs st) = None \<Longrightarrow>
   r_response (getChatRoute st chatId)
     = \<lparr>status = 500, body = Text ''Failed to get chat by chatId''\<rparr>"
  by (simp add: getChatRoute_def getChat_def ChatModel_findById_def respond_def)

subsection \<open>Chat creation validates its participants first\<close>

text \<open>
  C1. When some participant of the payload has no User document, \<^verbatim>\<open>saveChat\<close>
  returns an error, the Message and Chat collections are what they were, and the only
  model calls it made are user lookups, on a prefix of the participant list: no
  message and no chat was created, or attempted. When no lookup throws, the error is
  \<^verbatim>\<open>User not found\<close> for the first missing participant.
\<close>

theorem saveChat_missing_participant:
  assumes missing: "\<not> set (p_participants payload) \<subseteq> set (userDocs st)"
  shows "(\<exists>e. snd (saveChat st payload) = Inl e) \<and>
         messageDocs (fst (saveChat st payload)) = messageDocs st \<and>
         chatDocs (fst (saveChat st payload)) = chatDocs st \<and>
         (\<exists>k. calls (fst (saveChat st payload))
                = calls st @ map UserFindById (take k (p_participants payload))) \<and>
         ((\<forall>h q. \<not> throws st h (UserFindById q)) \<longrightarrow>
            (\<forall>p. find (\<lambda>q. q \<notin> set (userDocs st)) (p_participants payload) = Some p \<longrightarrow>
                 snd (saveChat st payload) = Inl (''User not found: '' @ p)))"
proof -
  let ?v = "validateParticipants st (p_participants payload)"
  from missing validateParticipants_complete have notNone: "snd ?v \<noteq> Returns None"
    by blast
  obtain k where k: "fst ?v = st\<lparr>calls := calls st @ map UserFindById (take k (p_participants payload))\<rparr>"
    using validateParticipants_store by blast
  have stay: "fst (saveChat st payload) = fst ?v"
    using notNone
    by (cases ?v) (auto simp: saveChat_def split: outcome.splits option.splits)
  have err: "\<exists>e. snd (saveChat st payload) = Inl e"
    using notNone
    by (cases ?v) (auto simp: saveChat_def split: outcome.splits option.splits)
  have named: "snd (saveChat st payload) = Inl (''User not found: '' @ p)"
    if "\<forall>h q. \<not> throws st h (UserFindById q)"
      and "find (\<lambda>q. q \<notin> set (userDocs st)) (p_participants payload) = Some p" for p
    using validateParticipants_first_missing [OF that]
    by (cases ?v) (auto simp: saveChat_def)
  from k stay have "calls (fst (saveChat st payload))
      = calls st @ map UserFindById (take k (p_participants payload))" by simp
  then have c: "\<exists>k. calls (fst (saveChat st payload))
      = calls st @ map UserFindById (take k (p_participants payload))" ..
  from k stay have m: "messageDocs (fst (saveChat st payload)) = messageDocs st" by simp
  from k stay have d: "chatDocs (fst (saveChat st payload)) = chatDocs st" by simp
  from err m d c named show ?thesis by blast
qed

theorem saveChat_missing_participant_witness:
  "snd (saveChat exampleStore examplePayload) = Inl ''User not found: carol'' \<and>
   messageDocs (fst (saveChat exampleStore examplePayload)) = [] \<and>
   chatDocs (fst (saveChat exampleStore examplePayload)) = [exampleChat]"
proof -
  have a: "\<not> set (p_participants examplePayload) \<subseteq> set (userDocs exampleStore)"
    by (simp add: examplePayload_def exampleStore_def)
  have b: "\<forall>h q. \<not> throws exampleStore h (UserFindById q)"
    by (simp add: exampleStore_def neverThrows_def)
  have c: "find (\<lambda>q. q \<notin> set (userDocs exampleStore)) (p_participants examplePayload)
      = Some ''carol''"
    by (simp add: examplePayload_def exampleStore_def)
  have d: "messageDocs exampleStore = []" "chatDocs exampleStore = [exampleChat]"
    by (simp_all add: exampleStore_def)
  from saveChat_missing_participant [OF a] b c d show ?thesis by simp
qed

subsection \<open>Appending a message to a chat\<close>




subsection \<open>Adding a participant\<close>

text \<open>
  C2. When neither model call throws, the user has a User document and a chat has the
  id, \<^verbatim>\<open>addParticipantToChat\<close> succeeds and the participants of the returned chat are
  those of the chat with the user added as to a set. For a user who is already a
  participant the returned participant list is the list as it was, and no stored chat
  changes its participants.
\<close>

theorem addParticipantToChat_idempotent:
  assumes lookup: "\<not> fails st (UserFindById userId)"
    and update: "\<not> fails (called st (UserFindById userId))
                    (ChatFindByIdAndUpdate chatId (AddToSetParticipant userId))"
    and user: "userId \<in> set (userDocs st)"
    and found: "find (hasId chatId) (chatDocs st) = Some c"
  shows "\<exists>c'. snd (addParticipantToChat st chatId userId) = Inr c' \<and>
           set (participants c') = insert userId (set (participants c)) \<and>
           (userId \<in> set (participants c) \<longrightarrow>
              participants c' = participants c \<and>
              map participants (chatDocs (fst (addParticipantToChat st chatId userId)))
                = map participants (chatDocs st))"
proof -
  let ?u = "AddToSetParticipant userId"
  let ?st1 = "called st (UserFindById userId)"
  let ?c' = "applyUpdate (clock st) ?u c"
  from user obtain d where d: "find (\<lambda>u. u = userId) (userDocs st) = Some d"
    using find_eq_None_mem [of userId "userDocs st"]
    by (cases "find (\<lambda>u. u = userId) (userDocs st)") auto
  have res: "addParticipantToChat st chatId userId =
      ((called ?st1 (ChatFindByIdAndUpdate chatId ?u))
         \<lparr>chatDocs := updateFirst (hasId chatId) (applyUpdate (clock st) ?u) (chatDocs st)\<rparr>,
       Inr ?c')"
    using lookup update d found
    by (simp add: addParticipantToChat_def UserModel_findById_def
        ChatModel_findByIdAndUpdate_def del: applyUpdate.simps)
  have same: "map participants (updateFirst (hasId chatId) (applyUpdate (clock st) ?u) (chatDocs st))
      = map participants (chatDocs st)" if "userId \<in> set (participants c)"
    using found that by (intro map_updateFirst_same) simp_all
  have "snd (addParticipantToChat st chatId userId) = Inr ?c'"
    by (simp add: res)
  moreover have "set (participants ?c') = insert userId (set (participants c))"
    by (rule set_participants_addToSet)
  moreover have "userId \<in> set (participants c) \<longrightarrow>
      participants ?c' = participants c \<and>
      map participants (chatDocs (fst (addParticipantToChat st chatId userId)))
        = map participants (chatDocs st)"
    using same by (simp add: res)
  ultimately show ?thesis by blast
qed

theorem addParticipantToChat_idempotent_witness:
  "\<exists>c'. snd (addParticipantToChat exampleStore exampleChatId ''bob'') = Inr c' \<and>
        participants c' = [''alice'', ''bob''] \<and>
        map participants (chatDocs (fst (addParticipantToChat exampleStore exampleChatId ''bob'')))
          = [[''alice'', ''bob'']]"
proof -
  have a: "\<not> fails exampleStore (UserFindById ''bob'')"
    by (simp add: fails_def exampleStore_def neverThrows_def)
  have b: "\<not> fails (called exampleStore (UserFindById ''bob''))
      (ChatFindByIdAndUpdate exampleChatId (AddToSetParticipant ''bob''))"
    by (simp add: fails_def exampleStore_def neverThrows_def)
  have c: "''bob'' \<in> set (userDocs exampleStore)"
    by (simp add: exampleStore_def)
  have d: "find (hasId exampleChatId) (chatDocs exampleStore) = Some exampleChat"
    by (simp add: exampleStore_def exampleChat_def hasId_def)
  have e: "participants exampleChat = [''alice'', ''bob'']"
    "map participants (chatDocs exampleStore) = [[''alice'', ''bob'']]"
    by (simp_all add: exampleStore_def exampleChat_def)
  have f: "''bob'' \<in> set (participants exampleChat)"
    by (simp add: exampleChat_def)
  note t = addParticipantToChat_idempotent [OF a b c d]
  from t obtain c' where
    r: "snd (addParticipantToChat exampleStore exampleChatId ''bob'') = Inr c'"
    and k: "''bob'' \<in> set (participants exampleChat) \<longrightarrow>
        participants c' = participants exampleChat \<and>
        map participants (chatDocs (fst (addParticipantToChat exampleStore exampleChatId ''bob'')))
          = map participants (chatDocs exampleStore)"
    by (elim exE conjE)
  from k f have k1: "participants c' = participants exampleChat"
    and k2: "map participants (chatDocs (fst (addParticipantToChat exampleStore exampleChatId ''bob'')))
          = map participants (chatDocs exampleStore)"
    by (rule mp [THEN conjunct1], rule mp [THEN conjunct2])
  show ?thesis
    by (rule exI [of _ c']) (simp only: r k1 k2 e simp_thms)
qed

subsection \<open>Chats by participants\<close>

text \<open>
  C4, as amended. \<^verbatim>\<open>getChatsByParticipants\<close> makes one query and never returns an
  error. For a non-empty list of usernames whose query does not throw, it returns
  exactly the chats whose participants include every given username, in the order of
  the collection; when the query throws, and for the empty list, it returns the empty
  sequence.
\<close>

theorem getChatsByParticipants_superset:
  "getChatsByParticipants st p =
     (called st (ChatFindAll p),
      if fails st (ChatFindAll p) \<or> p = [] then []
      else filter (\<lambda>c. set p \<subseteq> set (participants c)) (chatDocs st))"
  by (simp add: getChatsByParticipants_def ChatModel_find_all_def filter_matchesAll
      filter_matchesAll_Nil)

theorem getChatsByParticipants_superset_witness:
  "snd (getChatsByParticipants exampleStore [''bob'']) = [exampleChat] \<and>
   snd (getChatsByParticipants exampleStore [''carol'']) = [] \<and>
   snd (getChatsByParticipants exampleStore []) = []"
proof -
  have p: "participants exampleChat = [''alice'', ''bob'']"
    by (simp add: exampleChat_def)
  show ?thesis
    using getChatsByParticipants_superset [of exampleStore "[''bob'']"]
      getChatsByParticipants_superset [of exampleStore "[''carol'']"]
      getChatsByParticipants_superset [of exampleStore "[]"]
    by (simp add: p)
qed

text \<open>
  C4 as stated fails for the empty list: every chat's participants are a superset of
  no usernames, and the query returns none of the chats.
\<close>

theorem getChatsByParticipants_empty_list_counterexample:
  "snd (getChatsByParticipants exampleStore [])
     \<noteq> filter (\<lambda>c. set [] \<subseteq> set (participants c)) (chatDocs exampleStore)"
  by (simp add: getChatsByParticipants_def ChatModel_find_all_def matchesAll_def)

subsection \<open>Events the controller emits\<close>

text \<open>
  C3. When \<^verbatim>\<open>createChatRoute\<close> answers 200 it has emitted one \<^verbatim>\<open>created\<close> event
  per participant of the request, in order, each to the room named by that
  participant and each carrying the enriched chat of the response; so no event goes to
  a room that is not a participant's, the room of the chat's id among them. When
  \<^verbatim>\<open>addMessageToChatRoute\<close> answers 200 it has emitted exactly one event, of type
  \<^verbatim>\<open>newMessage\<close>, to the room named by the chat id of the request. A route that
  answers anything else has emitted nothing.
\<close>

theorem chatUpdate_rooms:
  "(status (r_response (createChatRoute st req)) = 200 \<longrightarrow>
      (\<exists>ps e. b_participants req = Some ps \<and>
         body (r_response (createChatRoute st req)) = ChatJson (Inr e) \<and>
         r_emitted (createChatRoute st req)
           = map (\<lambda>p. \<lparr>room = p, ev_chat = Inr e, ev_type = ''created''\<rparr>) ps \<and>
         map room (r_emitted (createChatRoute st req)) = ps \<and>
         (\<forall>cid. cid \<notin> set ps \<longrightarrow> cid \<notin> set (map room (r_emitted (createChatRoute st req)))))) \<and>
   (status (r_response (createChatRoute st req)) \<noteq> 200 \<longrightarrow>
      r_emitted (createChatRoute st req) = []) \<and>
   (status (r_response (addMessageToChatRoute st req')) = 200 \<longrightarrow>
      (\<exists>chatId e. am_chatId req' = Some chatId \<and>
         body (r_response (addMessageToChatRoute st req')) = ChatJson e \<and>
         r_emitted (addMessageToChatRoute st req')
           = [\<lparr>room = chatId, ev_chat = e, ev_type = ''newMessage''\<rparr>])) \<and>
   (status (r_response (addMessageToChatRoute st req')) \<noteq> 200 \<longrightarrow>
      r_emitted (addMessageToChatRoute st req') = [])"
proof (intro conjI impI)
  assume ok: "status (r_response (createChatRoute st req)) = 200"
  from createChatRoute_ok [OF ok] obtain ps e where
    ps: "b_participants req = Some ps"
    and b: "body (r_response (createChatRoute st req)) = ChatJson (Inr e)"
    and em: "r_emitted (createChatRoute st req) = map (createdEvent e) ps"
    by (elim exE conjE)
  have ev: "createdEvent e = (\<lambda>p. \<lparr>room = p, ev_chat = Inr e, ev_type = ''created''\<rparr>)"
    by (rule ext) (simp add: createdEvent_def)
  have rooms: "map room (map (createdEvent e) ps) = ps"
    by (induction ps) (simp_all add: createdEvent_def)
  show "\<exists>ps e. b_participants req = Some ps \<and>
         body (r_response (createChatRoute st req)) = ChatJson (Inr e) \<and>
         r_emitted (createChatRoute st req)
           = map (\<lambda>p. \<lparr>room = p, ev_chat = Inr e, ev_type = ''created''\<rparr>) ps \<and>
         map room (r_emitted (createChatRoute st req)) = ps \<and>
         (\<forall>cid. cid \<notin> set ps \<longrightarrow> cid \<notin> set (map room (r_emitted (createChatRoute st req))))"
    apply (rule exI [of _ ps], rule exI [of _ e])
    apply (simp only: ps b em rooms simp_thms)
    apply (simp only: ev)
    done
next
  assume "status (r_response (createChatRoute st req)) \<noteq> 200"
  then show "r_emitted (createChatRoute st req) = []"
    by (rule createChatRoute_not_ok)
next
  assume "status (r_response (addMessageToChatRoute st req')) = 200"
  then show "\<exists>chatId e. am_chatId req' = Some chatId \<and>
         body (r_response (addMessageToChatRoute st req')) = ChatJson e \<and>
         r_emitted (addMessageToChatRoute st req')
           = [\<lparr>room = chatId, ev_chat = e, ev_type = ''newMessage''\<rparr>]"
    by (rule addMessageToChatRoute_ok)
next
  assume "status (r_response (addMessageToChatRoute st req')) \<noteq> 200"
  then show "r_emitted (addMessageToChatRoute st req') = []"
    by (rule addMessageToChatRoute_not_ok)
qed

theorem chatUpdate_rooms_witness:
  "map room (r_emitted (createChatRoute exampleStore exampleCreate)) = [''alice'', ''bob''] \<and>
   map room (r_emitted (addMessageToChatRoute exampleStore exampleRequest)) = [exampleChatId] \<and>
   map ev_type (r_emitted (addMessageToChatRoute exampleStore exampleRequest)) = [''newMessage'']"
proof -
  note t = chatUpdate_rooms [of exampleStore exampleCreate exampleRequest]
  from t have "status (r_response (createChatRoute exampleStore exampleCreate)) = 200 \<longrightarrow>
      (\<exists>ps e. b_participants exampleCreate = Some ps \<and>
         body (r_response (createChatRoute exampleStore exampleCreate)) = ChatJson (Inr e) \<and>
         r_emitted (createChatRoute exampleStore exampleCreate)
           = map (\<lambda>p. \<lparr>room = p, ev_chat = Inr e, ev_type = ''created''\<rparr>) ps \<and>
         map room (r_emitted (createChatRoute exampleStore exampleCreate)) = ps \<and>
         (\<forall>cid. cid \<notin> set ps \<longrightarrow>
            cid \<notin> set (map room (r_emitted (createChatRoute exampleStore exampleCreate)))))"
    by (rule conjunct1)
  from this createChatRoute_example_status obtain ps where
    p: "b_participants exampleCreate = Some ps"
    and r1: "map room (r_emitted (createChatRoute exampleStore exampleCreate)) = ps"
    by (elim impE exE conjE) assumption
  from p have "ps = [''alice'', ''bob'']"
    by (simp add: exampleCreate_def)
  with r1 have r1': "map room (r_emitted (createChatRoute exampleStore exampleCreate))
      = [''alice'', ''bob'']"
    by (simp only:)
  from t have "status (r_response (addMessageToChatRoute exampleStore exampleRequest)) = 200 \<longrightarrow>
      (\<exists>chatId e. am_chatId exampleRequest = Some chatId \<and>
         body (r_response (addMessageToChatRoute exampleStore exampleRequest)) = ChatJson e \<and>
         r_emitted (addMessageToChatRoute exampleStore exampleRequest)
           = [\<lparr>room = chatId, ev_chat = e, ev_type = ''newMessage''\<rparr>])"
    by (rule conjunct2 [THEN conjunct2, THEN conjunct1])
  from this addMessageToChatRoute_example_status obtain chatId e where
    c: "am_chatId exampleRequest = Some chatId"
    and r2: "r_emitted (addMessageToChatRoute exampleStore exampleRequest)
           = [\<lparr>room = chatId, ev_chat = e, ev_type = ''newMessage''\<rparr>]"
    by (elim impE exE conjE) assumption
  from c have "chatId = exampleChatId"
    by (simp add: exampleRequest_def)
  with r2 have r2': "map room (r_emitted (addMessageToChatRoute exampleStore exampleRequest)) = [exampleChatId]"
    and r3: "map ev_type (r_emitted (addMessageToChatRoute exampleStore exampleRequest))
      = [''newMessage'']"
    by simp_all
  from r1' r2' r3 show ?thesis by (intro conjI)
qed

subsection \<open>Creating a message\<close>

text \<open>
  C5. When the create call does not throw, \<^verbatim>\<open>createMessage\<close> returns and appends to
  the collection the message it was given, with its type defaulted to \<^verbatim>\<open>direct\<close>
  and its date defaulted to the current time where the input leaves them missing, and
  with an \<^verbatim>\<open>_id\<close> where the input has none; nothing else differs from the input.
  On the add-message route, for a valid request whose create call does not throw, the
  message persisted has the text and the sender of the body, the type
  \<^verbatim>\<open>direct\<close>, and the date of the body, or the current time when the body has none.
\<close>

theorem createMessage_defaults:
  "(\<not> fails st (MessageCreate m) \<longrightarrow>
      (\<exists>d. snd (createMessage st m) = Inr d \<and>
           messageDocs (fst (createMessage st m)) = messageDocs st @ [d] \<and>
           d = m\<lparr>msgType := Some (case msgType m of Some k \<Rightarrow> k | None \<Rightarrow> ''direct''),
                 msgDateTime := Some (case msgDateTime m of Some t \<Rightarrow> t | None \<Rightarrow> clock st),
                 msg_id := (case msg_id m of Some i \<Rightarrow> Some i
                            | None \<Rightarrow> Some (newObjectId st (oidCount st)))\<rparr>)) \<and>
   (isAddMessageRequestValid req \<and> \<not> fails st (MessageCreate (routeMessage st (am_body req))) \<longrightarrow>
      (\<exists>d. messageDocs (r_store (addMessageToChatRoute st req)) = messageDocs st @ [d] \<and>
           msg d = msg (am_body req) \<and> msgFrom d = msgFrom (am_body req) \<and>
           msgType d = Some ''direct'' \<and>
           msgDateTime d
             = Some (case msgDateTime (am_body req) of Some t \<Rightarrow> t | None \<Rightarrow> clock st)))"
proof (intro conjI impI)
  assume "\<not> fails st (MessageCreate m)"
  from createMessage_persists [OF this]
  show "\<exists>d. snd (createMessage st m) = Inr d \<and>
           messageDocs (fst (createMessage st m)) = messageDocs st @ [d] \<and>
           d = m\<lparr>msgType := Some (case msgType m of Some k \<Rightarrow> k | None \<Rightarrow> ''direct''),
                 msgDateTime := Some (case msgDateTime m of Some t \<Rightarrow> t | None \<Rightarrow> clock st),
                 msg_id := (case msg_id m of Some i \<Rightarrow> Some i
                            | None \<Rightarrow> Some (newObjectId st (oidCount st)))\<rparr>"
    by (elim conjE) (intro exI conjI, assumption+, rule refl)
next
  assume a: "isAddMessageRequestValid req \<and>
    \<not> fails st (MessageCreate (routeMessage st (am_body req)))"
  then have v: "isAddMessageRequestValid req"
    and nf: "\<not> fails st (MessageCreate (routeMessage st (am_body req)))"
    by simp_all
  let ?m = "routeMessage st (am_body req)"
  from createMessage_ok [OF nf] obtain d where
    d: "messageDocs (fst (createMessage st ?m)) = messageDocs st @ [d]"
    and f: "msg d = msg ?m" "msgFrom d = msgFrom ?m"
      "msgType d = Some (case msgType ?m of Some k \<Rightarrow> k | None \<Rightarrow> ''direct'')"
      "msgDateTime d = Some (case msgDateTime ?m of Some t \<Rightarrow> t | None \<Rightarrow> clock st)"
    by (elim exE conjE)
  from addMessageToChatRoute_messageDocs [OF v] d
  have "messageDocs (r_store (addMessageToChatRoute st req)) = messageDocs st @ [d]"
    by simp
  moreover from f have "msg d = msg (am_body req)" "msgFrom d = msgFrom (am_body req)"
    "msgType d = Some ''direct''"
    "msgDateTime d = Some (case msgDateTime (am_body req) of Some t \<Rightarrow> t | None \<Rightarrow> clock st)"
    by (simp_all add: routeMessage_def)
  ultimately show "\<exists>d. messageDocs (r_store (addMessageToChatRoute st req)) = messageDocs st @ [d] \<and>
           msg d = msg (am_body req) \<and> msgFrom d = msgFrom (am_body req) \<and>
           msgType d = Some ''direct'' \<and>
           msgDateTime d
             = Some (case msgDateTime (am_body req) of Some t \<Rightarrow> t | None \<Rightarrow> clock st)"
    by (intro exI [of _ d] conjI)
qed

theorem createMessage_defaults_witness:
  "messageDocs (fst (createMessage exampleStore bareMessage))
     = [\<lparr>msg_id = Some ''000000000000000000000000'', msg = Some ''hi'', msgFrom = Some ''alice'',
         msgDateTime = Some 5, msgType = Some ''direct''\<rparr>] \<and>
   messageDocs (fst (createMessage exampleStore datedMessage))
     = [\<lparr>msg_id = Some ''000000000000000000000000'', msg = Some ''hello'',
         msgFrom = Some ''bob'', msgDateTime = Some 3, msgType = Some ''global''\<rparr>] \<and>
   (\<exists>d. messageDocs (r_store (addMessageToChatRoute exampleStore exampleRequest)) = [d] \<and>
        msg d = Some ''hi'' \<and> msgFrom d = Some ''alice'' \<and>
        msgType d = Some ''direct'' \<and> msgDateTime d = Some 5)"
proof -
  have n1: "\<not> fails exampleStore (MessageCreate bareMessage)" by simp
  have n2: "\<not> fails exampleStore (MessageCreate datedMessage)" by simp
  have v: "isAddMessageRequestValid exampleRequest \<and>
      \<not> fails exampleStore (MessageCreate (routeMessage exampleStore (am_body exampleRequest)))"
    by (simp add: isAddMessageRequestValid_def exampleRequest_def bareMessage_def falsy_def)
  from createMessage_defaults [of exampleStore bareMessage exampleRequest,
      THEN conjunct1, THEN mp, OF n1]
  obtain d where "messageDocs (fst (createMessage exampleStore bareMessage))
      = messageDocs exampleStore @ [d]"
    and "d = bareMessage\<lparr>msgType := Some (case msgType bareMessage of Some k \<Rightarrow> k
                                         | None \<Rightarrow> ''direct''),
             msgDateTime := Some (case msgDateTime bareMessage of Some t \<Rightarrow> t
                                  | None \<Rightarrow> clock exampleStore),
             msg_id := (case msg_id bareMessage of Some i \<Rightarrow> Some i
                        | None \<Rightarrow> Some (newObjectId exampleStore (oidCount exampleStore)))\<rparr>"
    by (elim exE conjE)
  then have a: "messageDocs (fst (createMessage exampleStore bareMessage))
     = [\<lparr>msg_id = Some ''000000000000000000000000'', msg = Some ''hi'', msgFrom = Some ''alice'',
         msgDateTime = Some 5, msgType = Some ''direct''\<rparr>]"
    by (simp add: bareMessage_def)
  from createMessage_defaults [of exampleStore datedMessage exampleRequest,
      THEN conjunct1, THEN mp, OF n2]
  obtain d2 where "messageDocs (fst (createMessage exampleStore datedMessage))
      = messageDocs exampleStore @ [d2]"
    and "d2 = datedMessage\<lparr>msgType := Some (case msgType datedMessage of Some k \<Rightarrow> k
                                         | None \<Rightarrow> ''direct''),
             msgDateTime := Some (case msgDateTime datedMessage of Some t \<Rightarrow> t
                                  | None \<Rightarrow> clock exampleStore),
             msg_id := (case msg_id datedMessage of Some i \<Rightarrow> Some i
                        | None \<Rightarrow> Some (newObjectId exampleStore (oidCount exampleStore)))\<rparr>"
    by (elim exE conjE)
  then have b: "messageDocs (fst (createMessage exampleStore datedMessage))
     = [\<lparr>msg_id = Some ''000000000000000000000000'', msg = Some ''hello'',
         msgFrom = Some ''bob'', msgDateTime = Some 3, msgType = Some ''global''\<rparr>]"
    by (simp add: datedMessage_def)
  from createMessage_defaults [of exampleStore bareMessage exampleRequest,
      THEN conjunct2, THEN mp, OF v]
  obtain d' where
    "messageDocs (r_store (addMessageToChatRoute exampleStore exampleRequest))
             = messageDocs exampleStore @ [d']"
    "msg d' = msg (am_body exampleRequest)" "msgFrom d' = msgFrom (am_body exampleRequest)"
    "msgType d' = Some ''direct''"
    "msgDateTime d' = Some (case msgDateTime (am_body exampleRequest) of Some t \<Rightarrow> t
                | None \<Rightarrow> clock exampleStore)"
    by (elim exE conjE)
  then have c: "\<exists>d. messageDocs (r_store (addMessageToChatRoute exampleStore exampleRequest)) = [d] \<and>
        msg d = Some ''hi'' \<and> msgFrom d = Some ''alice'' \<and>
        msgType d = Some ''direct'' \<and> msgDateTime d = Some 5"
    by (intro exI [of _ d']) (simp add: exampleRequest_def bareMessage_def)
  from a b c show ?thesis by (intro conjI)
qed

subsection \<open>The status of the add-message route\<close>

text \<open>
  C7. \<^verbatim>\<open>addMessageToChatRoute\<close> does not test what \<^verbatim>\<open>populateDocument\<close> returns.
  In the store whose enrichment call fails, a valid request for the existing chat
  creates the message, appends it to the chat, and is answered with status 200 and the
  error object as its body; the same error object is emitted as the chat of the
  \<^verbatim>\<open>newMessage\<close> event.
\<close>

theorem addMessageToChatRoute_enrichment_error_200:
  "r_response (addMessageToChatRoute faultyStore exampleRequest)
     = \<lparr>status = 200,
        body = ChatJson (Inl ''Error when fetching and populating a document: storage'')\<rparr> \<and>
   r_emitted (addMessageToChatRoute faultyStore exampleRequest)
     = [\<lparr>room = exampleChatId,
         ev_chat = Inl ''Error when fetching and populating a document: storage'',
         ev_type = ''newMessage''\<rparr>]"
  by (simp add: addMessageToChatRoute_def exampleRequest_def isAddMessageRequestValid_def
      falsy_def bareMessage_def routeMessage_def createMessage_def MessageModel_create_def
      addMessageToChat_def ChatModel_findByIdAndUpdate_def populateDocument_def hasId_def
      Let_def exampleChat_def)

text \<open>
  \<^verbatim>\<open>createChatRoute\<close> tests the same result and answers 500 in the same store.
\<close>

lemma createChatRoute_enrichment_error_500:
  "r_response (createChatRoute faultyStore exampleCreate)
     = \<lparr>status = 500,
        body = Text (''Error when creating chat: Error: ''
                 @ ''Error when fetching and populating a document: storage'')\<rparr>"
  by (simp add: createChatRoute_def exampleCreate_def isCreateChatRequestValid_def saveChat_def
      UserModel_findById_def ChatModel_create_def populateDocument_def hasId_def Let_def
      exampleChat_def respond_def)

subsection \<open>The client's handler of chat updates\<close>

text \<open>
  C8. For an event whose type is neither \<^verbatim>\<open>created\<close> nor \<^verbatim>\<open>newMessage\<close>,
  \<^verbatim>\<open>handleChatUpdate\<close> throws the error \<^verbatim>\<open>Invalid chat update type\<close>; no state is
  returned.
\<close>

theorem handleChatUpdate_unknown_type:
  assumes "type chatUpdate \<noteq> ''created''" and "type chatUpdate \<noteq> ''newMessage''"
  shows "handleChatUpdate username st chatUpdate
           = Inl (''Invalid chat update type: '' @ type chatUpdate)"
  using assms by (simp add: handleChatUpdate_def Let_def)

theorem handleChatUpdate_unknown_type_witness:
  "handleChatUpdate ''alice'' exampleHook \<lparr>chat = exampleClientChat, type = ''deleted''\<rparr>
     = Inl ''Invalid chat update type: deleted''"
proof -
  have a: "type \<lparr>chat = exampleClientChat, type = ''deleted''\<rparr> \<noteq> ''created''" by simp
  have b: "type \<lparr>chat = exampleClientChat, type = ''deleted''\<rparr> \<noteq> ''newMessage''" by simp
  from handleChatUpdate_unknown_type [OF a b, of "''alice''" exampleHook]
  show ?thesis by simp
qed

text \<open>
  C9. For a \<^verbatim>\<open>created\<close> event the handler returns; the chats afterwards are the
  chats before with the event's chat appended when the event's participants include
  the current user and no chat of the list has the event's chat id, and the chats
  before otherwise; the selected chat is untouched; and handling the same event again
  in the resulting state leaves that state.
\<close>

theorem handleChatUpdate_created:
  assumes "type chatUpdate = ''created''"
  shows "\<exists>st'. handleChatUpdate username st chatUpdate = Inr st' \<and>
           chats st' =
             (if username \<in> set (c_participants (chat chatUpdate)) \<and>
                 \<not> (\<exists>c \<in> set (chats st). c_id c = c_id (chat chatUpdate))
              then chats st @ [chat chatUpdate] else chats st) \<and>
           selectedChat st' = selectedChat st \<and>
           handleChatUpdate username st' chatUpdate = Inr st'"
  using assms
  by (auto simp: handleChatUpdate_def Let_def flat_def list_ex_iff)

theorem handleChatUpdate_created_witness:
  "handleChatUpdate ''alice'' exampleHook \<lparr>chat = exampleClientChat, type = ''created''\<rparr>
     = Inr (exampleHook\<lparr>chats := [exampleClientChat]\<rparr>) \<and>
   handleChatUpdate ''alice'' (exampleHook\<lparr>chats := [exampleClientChat]\<rparr>)
       \<lparr>chat = exampleClientChat, type = ''created''\<rparr>
     = Inr (exampleHook\<lparr>chats := [exampleClientChat]\<rparr>)"
proof -
  let ?u = "\<lparr>chat = exampleClientChat, type = ''created''\<rparr>"
  have a: "type ?u = ''created''" by simp
  from handleChatUpdate_created [OF a, of "''alice''" exampleHook] obtain st' where
    r: "handleChatUpdate ''alice'' exampleHook ?u = Inr st'"
    and again: "handleChatUpdate ''alice'' st' ?u = Inr st'"
    by (elim exE conjE)
  have e: "handleChatUpdate ''alice'' exampleHook ?u = Inr (exampleHook\<lparr>chats := [exampleClientChat]\<rparr>)"
    by (simp add: handleChatUpdate_def Let_def flat_def exampleHook_def exampleClientChat_def)
  with r have "st' = exampleHook\<lparr>chats := [exampleClientChat]\<rparr>" by simp
  with again e show ?thesis by simp
qed

subsection \<open>Chats of a user: the missing username\<close>

text \<open>
  C10, as amended. The router hands \<^verbatim>\<open>getChatsByUserRoute\<close> a non-empty username
  only. The handler's own guard answers 400 with \<^verbatim>\<open>Invalid body\<close> and leaves the
  store as it was, its history of model calls included, for a username that is missing
  or empty; no request takes it. A GET of \<^verbatim>\<open>/getChatsByUser/\<close>, the username left
  empty, is dispatched to \<^verbatim>\<open>/:chatId\<close>: \<^verbatim>\<open>getChatRoute\<close> looks up the chat id
  \<^verbatim>\<open>getChatsByUser\<close> and, no chat having that id, answers 500.
\<close>

theorem getChatsByUser_empty_username_unreachable:
  "(\<forall>u. routeGet path = Some (GetChatsByUser u) \<longrightarrow> u \<noteq> []) \<and>
   (username = None \<or> username = Some [] \<longrightarrow>
      r_response (getChatsByUserRoute st username)
        = \<lparr>status = 400, body = Text ''Invalid body''\<rparr> \<and>
      r_store (getChatsByUserRoute st username) = st) \<and>
   dispatchGet st ''/getChatsByUser/'' = getChatRoute st ''getChatsByUser'' \<and>
   dispatchGet st ''/getChatsByUser'' = getChatRoute st ''getChatsByUser'' \<and>
   (find (hasId ''getChatsByUser'') (chatDocs st) = None \<longrightarrow>
      r_response (dispatchGet st ''/getChatsByUser/'')
        = \<lparr>status = 500, body = Text ''Failed to get chat by chatId''\<rparr>)"
proof (intro conjI allI impI)
  fix u
  assume "routeGet path = Some (GetChatsByUser u)"
  then show "u \<noteq> []" by (rule routeGet_username)
next
  assume a: "username = None \<or> username = Some []"
  from getChatsByUserRoute_guard [OF a, of st]
  show "r_response (getChatsByUserRoute st username)
        = \<lparr>status = 400, body = Text ''Invalid body''\<rparr>"
    and "r_store (getChatsByUserRoute st username) = st"
    by simp_all
next
  show d1: "dispatchGet st ''/getChatsByUser/'' = getChatRoute st ''getChatsByUser''"
    by (simp add: dispatchGet_def)
  show "dispatchGet st ''/getChatsByUser'' = getChatRoute st ''getChatsByUser''"
    by (simp add: dispatchGet_def)
  assume "find (hasId ''getChatsByUser'') (chatDocs st) = None"
  from getChatRoute_absent [OF this] d1
  show "r_response (dispatchGet st ''/getChatsByUser/'')
        = \<lparr>status = 500, body = Text ''Failed to get chat by chatId''\<rparr>"
    by simp
qed

theorem getChatsByUser_empty_username_unreachable_witness:
  "routeGet ''/getChatsByUser/bob'' = Some (GetChatsByUser ''bob'') \<and> ''bob'' \<noteq> [] \<and>
   status (r_response (getChatsByUserRoute exampleStore None)) = 400 \<and>
   calls (r_store (getChatsByUserRoute exampleStore (Some []))) = [] \<and>
   r_response (dispatchGet exampleStore ''/getChatsByUser/'')
     = \<lparr>status = 500, body = Text ''Failed to get chat by chatId''\<rparr>"
proof -
  note t = getChatsByUser_empty_username_unreachable
  have r: "routeGet ''/getChatsByUser/bob'' = Some (GetChatsByUser ''bob'')" by simp
  from t [of "''/getChatsByUser/bob''" None exampleStore, THEN conjunct1, THEN spec, THEN mp, OF r]
  have a: "''bob'' \<noteq> []" .
  have n: "None = None \<or> None = Some ([] :: string)" by simp
  have e: "Some [] = None \<or> Some [] = Some ([] :: string)" by simp
  from t [of "''/getChatsByUser/bob''" None exampleStore, THEN conjunct2, THEN conjunct1,
      THEN mp, OF n]
  have b: "status (r_response (getChatsByUserRoute exampleStore None)) = 400" by simp
  from t [of "''/getChatsByUser/bob''" "Some []" exampleStore, THEN conjunct2, THEN conjunct1,
      THEN mp, OF e]
  have c: "calls (r_store (getChatsByUserRoute exampleStore (Some []))) = []" by simp
  have f: "find (hasId ''getChatsByUser'') (chatDocs exampleStore) = None" by simp
  from t [of "''/getChatsByUser/bob''" None exampleStore, THEN conjunct2, THEN conjunct2,
      THEN conjunct2, THEN conjunct2, THEN mp, OF f]
  have d: "r_response (dispatchGet exampleStore ''/getChatsByUser/'')
     = \<lparr>status = 500, body = Text ''Failed to get chat by chatId''\<rparr>" .
  from r a b c d show ?thesis by (intro conjI)
qed

text \<open>
  C10 as stated fails at the request with the empty username: the answer is 500, not
  400.
\<close>

theorem getChatsByUser_empty_username_counterexample:
  "status (r_response (dispatchGet exampleStore ''/getChatsByUser/'')) = 500 \<and>
   status (r_response (dispatchGet exampleStore ''/getChatsByUser/'')) \<noteq> 400"
  by (simp add: dispatchGet_def getChatRoute_def getChat_def ChatModel_findById_def
      respond_def)

end
